theory Spec2Isabelle
  imports Main "HOL-Library.Word"
begin

section \<open>Strings, amounts and results\<close>

text \<open>
  The contract is AssemblyScript. Its strings are sequences of 16-bit code units:
  \<open>length\<close> counts code units and \<open>charCodeAt\<close> reads one. A string is therefore a
  list of 16-bit words. \<open>utf16\<close> writes an ASCII literal of the source as such a list.
\<close>

type_synonym ustring = "16 word list"

definition utf16 :: "string \<Rightarrow> ustring" where
  "utf16 s = map (\<lambda>c. of_nat (of_char c)) s"

text \<open>
  \<open>Address\<close> of the SDK wraps the string it was built from and \<open>toString\<close> gives it
  back. \<open>Amount\<close> of as-types wraps a \<open>u64\<close>.
\<close>

datatype Address = Address (toString: ustring)

datatype Amount = Amount (amount: "64 word")

text \<open>
  \<open>Result<T>\<close> of as-types holds a value and an error message that may be null;
  \<open>isOk\<close> is \<open>!this.error\<close>, true for null and for the empty message; \<open>unwrap\<close>
  aborts the invocation on an error.
\<close>

datatype 'a Result = Result (rvalue: 'a) (error: "ustring option")

datatype host_error = NotFound | UnwrapError

definition isOk :: "'a Result \<Rightarrow> bool" where
  "isOk r = (case error r of None \<Rightarrow> True | Some m \<Rightarrow> m = [])"

definition unwrap :: "'a Result \<Rightarrow> host_error + 'a" where
  "unwrap r = (if isOk r then Inr (rvalue r) else Inl UnwrapError)"

text \<open>\<open>Amount.add\<close>: the sum as a result, an error when the \<open>u64\<close> addition overflows.\<close>

definition amount_add :: "Amount \<Rightarrow> Amount \<Rightarrow> Amount Result" where
  "amount_add a b =
     (if unat (amount a) + unat (amount b) < 2 ^ 64
      then Result (Amount (amount a + amount b)) None
      else Result (Amount 0) (Some (utf16 ''Overflow'')))"

section \<open>The cost model, the validity predicate and the splitter\<close>

text \<open>
  Both listings of \<open>main.ts\<close> hold the same \<open>ONE_UNIT\<close>, \<open>compute_cost\<close>,
  \<open>is_valid_domain\<close> and \<open>split_domain\<close>, so each is defined once. The products of
  \<open>compute_cost\<close> are arguments of \<open>new Amount\<close>, whose parameter is a \<open>u64\<close>.
\<close>

definition ONE_UNIT :: "64 word" where
  "ONE_UNIT = 1000000000"

definition compute_cost :: "ustring \<Rightarrow> Amount" where
  "compute_cost domain =
     (if length domain = 2 then Amount (10000 * ONE_UNIT)
      else if length domain = 3 then Amount (1000 * ONE_UNIT)
      else if length domain \<ge> 4 \<and> length domain \<le> 10 then Amount (100 * ONE_UNIT)
      else Amount (1 * ONE_UNIT))"

text \<open>
  The loop of \<open>is_valid_domain\<close> reads the code units from index 0 upwards and returns
  false at the first one outside the three ranges: recursion on the units still to read.
\<close>

fun valid_from :: "ustring \<Rightarrow> bool" where
  "valid_from [] = True"
| "valid_from (u # us) =
     (let c = uint u in
      if \<not> ((c \<ge> 48 \<and> c \<le> 57) \<or> (c \<ge> 97 \<and> c \<le> 122) \<or> c = 45) then False
      else valid_from us)"

definition is_valid_domain :: "ustring \<Rightarrow> bool" where
  "is_valid_domain domain = (if length domain < 2 then False else valid_from domain)"

text \<open>
  \<open>lastIndexOf\<close> for a search string of one code unit: the index of its last occurrence,
  or -1. \<open>slice\<close> as the AssemblyScript library has it: a negative index counts from the
  end, both indices are clamped to the string, an empty range gives the empty string.
\<close>

fun lastIndexOf :: "ustring \<Rightarrow> 16 word \<Rightarrow> int" where
  "lastIndexOf [] u = - 1"
| "lastIndexOf (x # xs) u =
     (let r = lastIndexOf xs u in
      if r \<noteq> - 1 then r + 1 else if x = u then 0 else - 1)"

definition slice :: "ustring \<Rightarrow> int \<Rightarrow> int \<Rightarrow> ustring" where
  "slice s beginIndex endIndex =
     (let len = int (length s);
          b = (if beginIndex < 0 then max (beginIndex + len) 0 else min beginIndex len);
          e = (if endIndex < 0 then max (endIndex + len) 0 else min endIndex len)
      in if e - b \<le> 0 then [] else take (nat (e - b)) (drop (nat b) s))"

definition i32_MAX :: int where
  "i32_MAX = 2147483647"

text \<open>The two-element array that \<open>split_domain\<close> returns is the pair (remainder, label).\<close>

definition split_domain :: "ustring \<Rightarrow> ustring \<times> ustring" where
  "split_domain domain =
     (let lastIndex = lastIndexOf domain 46 in
      if lastIndex = - 1 then ([], domain)
      else (slice domain 0 lastIndex, slice domain (lastIndex + 1) i32_MAX))"

text \<open>
  A terminal name (glossary of the specification) leaves no remainder when the rightmost
  label is split off; a delegated name leaves one.
\<close>

definition terminal :: "ustring \<Rightarrow> bool" where
  "terminal full_domain = (fst (split_domain full_domain) = [])"

definition label_of :: "ustring \<Rightarrow> ustring" where
  "label_of full_domain = snd (split_domain full_domain)"

text \<open>The alphabet of the specification's validity predicate, spelled out.\<close>

definition label_alphabet :: "ustring" where
  "label_alphabet = utf16 ''abcdefghijklmnopqrstuvwxyz0123456789-''"

section \<open>The host: buffers, datastore, context, ledger and calls\<close>

text \<open>
  A byte buffer built or read through \<open>Args\<close> is modelled by the sequence of fields
  written into it: \<open>add<u8>\<close>, \<open>add<string>\<close>, \<open>add<Amount>\<close> and
  \<open>add<StaticArray<u8>>\<close> each append one field, and \<open>new StaticArray<u8>(0)\<close> is
  the empty buffer. \<open>nextString\<close> reads the field under the cursor and moves on; it
  gives an error result when that field is not a string.
\<close>

datatype field = U8 "8 word" | Str ustring | Amt Amount | Buf "field list"

type_synonym buffer = "field list"

fun nextString :: "buffer \<Rightarrow> ustring Result \<times> buffer" where
  "nextString (Str s # rest) = (Result s None, rest)"
| "nextString b = (Result [] (Some (utf16 ''deserialization error'')), b)"

text \<open>
  The state an invocation can change: the contract's datastore and the coins it has sent.
  The context it reads: the verified caller and the coins that came with the call.
\<close>

record state =
  storage :: "ustring \<rightharpoonup> ustring"
  transfers :: "(Address \<times> 64 word) list"

record invocation =
  caller :: Address
  transferredCoins :: "64 word"

text \<open>
  Modelled from the spec: \<open>Storage.get\<close>, \<open>Storage.set\<close> and \<open>Storage.del\<close> belong
  to the SDK, not to the repository. The store is an external durable map with get, set
  and delete by key (sections 1 and 9). What the lookup of a key with no entry does is
  not decided by the listings, which have no branch for a missing record, and the
  specification reads it operation by operation: \<open>dns_resolve\<close> fails with
  \<open>NotFound\<close> (sections 4.3, 7 and 8), \<open>dns_free\<close> and \<open>dns_transfer\<close> compare
  the caller with an absent or empty owner (sections 4.6 and 7), \<open>dns_alloc_cost\<close>
  goes on to the local quote (sections 4.4 and 9). It is therefore a parameter of the
  host: the lookup of a missing key either aborts the invocation with \<open>NotFound\<close>,
  and an aborted invocation commits nothing (section 5), or returns a value. The lookup
  of a key that has an entry returns the entry on every host. Deleting a key that has
  no entry is taken to abort; the listings delete only after the lookup of the same key.
\<close>

datatype missing_key = Aborts | Returns ustring

definition Storage_get :: "missing_key \<Rightarrow> state \<Rightarrow> ustring \<Rightarrow> host_error + ustring" where
  "Storage_get host s key =
     (case storage s key of
        Some v \<Rightarrow> Inr v
      | None \<Rightarrow> (case host of Aborts \<Rightarrow> Inl NotFound | Returns v \<Rightarrow> Inr v))"

definition Storage_set :: "state \<Rightarrow> ustring \<Rightarrow> ustring \<Rightarrow> state" where
  "Storage_set s key v = s\<lparr>storage := (storage s)(key \<mapsto> v)\<rparr>"

definition Storage_del :: "state \<Rightarrow> ustring \<Rightarrow> host_error + state" where
  "Storage_del s key =
     (case storage s key of None \<Rightarrow> Inl NotFound
      | Some v \<Rightarrow> Inr (s\<lparr>storage := (storage s)(key := None)\<rparr>))"

text \<open>
  Modelled from the spec: \<open>transferCoins\<close> belongs to the SDK. The value-transfer
  mechanism is an external ledger (section 1) and a transfer is atomic and irrevocable
  once issued (section 4.6): the transfer is recorded, in the order of issue.
\<close>

definition transferCoins :: "state \<Rightarrow> Address \<Rightarrow> 64 word \<Rightarrow> state" where
  "transferCoins s to coins = s\<lparr>transfers := transfers s @ [(to, coins)]\<rparr>"

text \<open>
  \<open>call\<close> of the SDK runs a function of another contract and returns its buffer, or
  fails with it. What the callee does is not the registry's code: it is a parameter of
  every operation that delegates.
\<close>

type_synonym call_fn =
  "Address \<Rightarrow> string \<Rightarrow> buffer \<Rightarrow> 64 word \<Rightarrow> state \<Rightarrow> host_error + (buffer \<times> state)"

section \<open>First listing: results serialised into a tagged buffer\<close>

text \<open>\<open>serializeResult<T>\<close>; the first argument is \<open>add<T>\<close> for the payload type.\<close>

definition serializeResult :: "('a \<Rightarrow> field) \<Rightarrow> 'a Result \<Rightarrow> buffer" where
  "serializeResult add r =
     (if isOk r then [U8 0, add (rvalue r)] else [U8 1, Str (the (error r))])"

definition dns_resolve_v1 ::
  "missing_key \<Rightarrow> call_fn \<Rightarrow> invocation \<Rightarrow> state \<Rightarrow> buffer \<Rightarrow> host_error + (buffer \<times> state)" where
  "dns_resolve_v1 host call ctx s args =
     (case unwrap (fst (nextString args)) of Inl e \<Rightarrow> Inl e
      | Inr full_domain \<Rightarrow>
          let domain_array = split_domain full_domain in
          if fst domain_array \<noteq> [] then
            (case Storage_get host s (snd domain_array) of Inl e \<Rightarrow> Inl e
             | Inr address \<Rightarrow>
                 call (Address address) ''dns_resolve'' [Str (fst domain_array)]
                   (transferredCoins ctx) s)
          else
            (case Storage_get host s (snd domain_array) of Inl e \<Rightarrow> Inl e
             | Inr v \<Rightarrow> Inr (serializeResult Str (Result v None), s)))"

definition dns_alloc_cost_v1 ::
  "missing_key \<Rightarrow> call_fn \<Rightarrow> invocation \<Rightarrow> state \<Rightarrow> buffer \<Rightarrow> host_error + (buffer \<times> state)" where
  "dns_alloc_cost_v1 host call ctx s args =
     (case unwrap (fst (nextString args)) of Inl e \<Rightarrow> Inl e
      | Inr full_domain \<Rightarrow>
      (case unwrap (fst (nextString (snd (nextString args)))) of Inl e \<Rightarrow> Inl e
       | Inr a \<Rightarrow>
          let domain_array = split_domain full_domain;
              cost = Amount 0 in
          if fst domain_array \<noteq> [] then
            (case Storage_get host s (snd domain_array) of Inl e \<Rightarrow> Inl e
             | Inr address \<Rightarrow>
                 call (Address address) ''dns_alloc_cost'' [Str (fst domain_array)]
                   (transferredCoins ctx) s)
          else
            (case unwrap (amount_add cost (compute_cost (snd domain_array))) of
               Inl e \<Rightarrow> Inl e
             | Inr cost \<Rightarrow>
                 if \<not> is_valid_domain (snd domain_array) then
                   Inr (serializeResult Amt
                          (Result (Amount 0) (Some (utf16 ''Invalid domain name.''))), s)
                 else Inr (serializeResult Amt (Result cost None), s))))"

definition dns_alloc_v1 ::
  "missing_key \<Rightarrow> call_fn \<Rightarrow> invocation \<Rightarrow> state \<Rightarrow> buffer \<Rightarrow> host_error + (buffer \<times> state)" where
  "dns_alloc_v1 host call ctx s args =
     (case unwrap (fst (nextString args)) of Inl e \<Rightarrow> Inl e
      | Inr full_domain \<Rightarrow>
      (case unwrap (fst (nextString (snd (nextString args)))) of Inl e \<Rightarrow> Inl e
       | Inr a \<Rightarrow>
          let address = Address a;
              domain_array = split_domain full_domain in
          if fst domain_array \<noteq> [] then
            (case Storage_get host s (snd domain_array) of Inl e \<Rightarrow> Inl e
             | Inr address \<Rightarrow>
                 call (Address address) ''dns_alloc'' [Str (fst domain_array)]
                   (transferredCoins ctx) s)
          else
            let cost = compute_cost (snd domain_array) in
            if transferredCoins ctx < amount cost then
              Inr (serializeResult Buf
                     (Result [] (Some (utf16 ''Not enough coins to pay for the domain name.''))), s)
            else
              Inr (serializeResult Buf (Result [] None),
                   Storage_set s (snd domain_array) (toString address))))"

definition dns_free_v1 ::
  "missing_key \<Rightarrow> call_fn \<Rightarrow> invocation \<Rightarrow> state \<Rightarrow> buffer \<Rightarrow> host_error + (buffer \<times> state)" where
  "dns_free_v1 host call ctx s args =
     (case unwrap (fst (nextString args)) of Inl e \<Rightarrow> Inl e
      | Inr full_domain \<Rightarrow>
          let domain_array = split_domain full_domain in
          if fst domain_array \<noteq> [] then
            (case Storage_get host s (snd domain_array) of Inl e \<Rightarrow> Inl e
             | Inr address \<Rightarrow>
                 call (Address address) ''dns_free'' [Str (fst domain_array)]
                   (transferredCoins ctx) s)
          else
            (case Storage_get host s (snd domain_array) of Inl e \<Rightarrow> Inl e
             | Inr address \<Rightarrow>
                 if address \<noteq> toString (caller ctx) then
                   Inr (serializeResult Buf
                          (Result [] (Some (utf16 ''Only the owner of the domain can free it.''))), s)
                 else
                   (case Storage_del s (snd domain_array) of Inl e \<Rightarrow> Inl e
                    | Inr s1 \<Rightarrow>
                        let cost = compute_cost (snd domain_array);
                            s2 = transferCoins s1 (caller ctx) (amount cost div 2)
                        in Inr (serializeResult Buf (Result [] None), s2))))"


section \<open>Second listing: results returned as \<open>Result\<close> values\<close>

text \<open>
  On a delegated name \<open>dns_resolve\<close> only reads the record of the top-level label and
  answers with an error; \<open>dns_alloc_cost\<close> reads it and goes on with the local label.
  Neither issues a call (both calls are commented out in the listing), so neither takes
  the callee as a parameter. The other three wrap the callee's buffer in a result.
\<close>

definition dns_resolve_v2 ::
  "missing_key \<Rightarrow> invocation \<Rightarrow> state \<Rightarrow> buffer \<Rightarrow> host_error + (Address Result \<times> state)" where
  "dns_resolve_v2 host ctx s args =
     (case unwrap (fst (nextString args)) of Inl e \<Rightarrow> Inl e
      | Inr full_domain \<Rightarrow>
          let domain_array = split_domain full_domain in
          if fst domain_array \<noteq> [] then
            (case Storage_get host s (snd domain_array) of Inl e \<Rightarrow> Inl e
             | Inr address \<Rightarrow>
                 Inr (Result (Address address) (Some (utf16 ''Not implemented yet.'')), s))
          else
            (case Storage_get host s (snd domain_array) of Inl e \<Rightarrow> Inl e
             | Inr v \<Rightarrow> Inr (Result (Address v) None, s)))"

definition dns_alloc_cost_v2 ::
  "missing_key \<Rightarrow> invocation \<Rightarrow> state \<Rightarrow> buffer \<Rightarrow> host_error + (Amount Result \<times> state)" where
  "dns_alloc_cost_v2 host ctx s args =
     (case unwrap (fst (nextString args)) of Inl e \<Rightarrow> Inl e
      | Inr full_domain \<Rightarrow>
      (case unwrap (fst (nextString (snd (nextString args)))) of Inl e \<Rightarrow> Inl e
       | Inr a \<Rightarrow>
          let domain_array = split_domain full_domain;
              cost = Amount 0 in
          (case (if fst domain_array \<noteq> [] then Storage_get host s (snd domain_array)
                 else Inr []) of Inl e \<Rightarrow> Inl e
           | Inr address \<Rightarrow>
               (case unwrap (amount_add cost (compute_cost (snd domain_array))) of
                  Inl e \<Rightarrow> Inl e
                | Inr cost \<Rightarrow>
                    if \<not> is_valid_domain (snd domain_array) then
                      Inr (Result (Amount 0) (Some (utf16 ''Invalid domain name.'')), s)
                    else Inr (Result cost None, s)))))"

definition dns_alloc_v2 ::
  "missing_key \<Rightarrow> call_fn \<Rightarrow> invocation \<Rightarrow> state \<Rightarrow> buffer \<Rightarrow> host_error + (buffer Result \<times> state)" where
  "dns_alloc_v2 host call ctx s args =
     (case unwrap (fst (nextString args)) of Inl e \<Rightarrow> Inl e
      | Inr full_domain \<Rightarrow>
      (case unwrap (fst (nextString (snd (nextString args)))) of Inl e \<Rightarrow> Inl e
       | Inr a \<Rightarrow>
          let address = Address a;
              domain_array = split_domain full_domain in
          if fst domain_array \<noteq> [] then
            (case Storage_get host s (snd domain_array) of Inl e \<Rightarrow> Inl e
             | Inr address \<Rightarrow>
                 (case call (Address address) ''dns_alloc'' [Str (fst domain_array)]
                         (transferredCoins ctx) s of Inl e \<Rightarrow> Inl e
                  | Inr (b, s1) \<Rightarrow> Inr (Result b None, s1)))
          else
            let cost = compute_cost (snd domain_array) in
            if transferredCoins ctx < amount cost then
              Inr (Result [] (Some (utf16 ''Not enough coins to pay for the domain name.'')), s)
            else
              Inr (Result [] None, Storage_set s (snd domain_array) (toString address))))"

definition dns_free_v2 ::
  "missing_key \<Rightarrow> call_fn \<Rightarrow> invocation \<Rightarrow> state \<Rightarrow> buffer \<Rightarrow> host_error + (buffer Result \<times> state)" where
  "dns_free_v2 host call ctx s args =
     (case unwrap (fst (nextString args)) of Inl e \<Rightarrow> Inl e
      | Inr full_domain \<Rightarrow>
          let domain_array = split_domain full_domain in
          if fst domain_array \<noteq> [] then
            (case Storage_get host s (snd domain_array) of Inl e \<Rightarrow> Inl e
             | Inr address \<Rightarrow>
                 (case call (Address address) ''dns_free'' [Str (fst domain_array)]
                         (transferredCoins ctx) s of Inl e \<Rightarrow> Inl e
                  | Inr (b, s1) \<Rightarrow> Inr (Result b None, s1)))
          else
            (case Storage_get host s (snd domain_array) of Inl e \<Rightarrow> Inl e
             | Inr address \<Rightarrow>
                 if address \<noteq> toString (caller ctx) then
                   Inr (Result [] (Some (utf16 ''Only the owner of the domain can free it.'')), s)
                 else
                   (case Storage_del s (snd domain_array) of Inl e \<Rightarrow> Inl e
                    | Inr s1 \<Rightarrow>
                        let cost = compute_cost (snd domain_array);
                            s2 = transferCoins s1 (caller ctx) (amount cost div 2)
                        in Inr (Result [] None, s2))))"


section \<open>Readers of a reply and example hosts\<close>

text \<open>A client reads the tag of a serialised reply: 0 is success, 1 is failure.\<close>

fun reply_ok :: "buffer \<Rightarrow> bool" where
  "reply_ok (U8 t # rest) = (t = 0)"
| "reply_ok b = False"

text \<open>
  For the examples: a sub-registry that answers every call with the owner \<open>sub\<close>, a
  callee that is never reached, an empty registry and one holding the labels \<open>ab\<close> and
  \<open>top\<close>, and a call by \<open>alice\<close> paying the price of a two-character label.
\<close>

definition sub_registry :: call_fn where
  "sub_registry target fname args coins s = Inr ([U8 0, Str (utf16 ''sub'')], s)"

definition unreachable_registry :: call_fn where
  "unreachable_registry target fname args coins s = Inl UnwrapError"

definition empty_registry :: state where
  "empty_registry = \<lparr>storage = Map.empty, transfers = []\<rparr>"

definition bob_registry :: state where
  "bob_registry =
     \<lparr>storage = [utf16 ''ab'' \<mapsto> utf16 ''bob'', utf16 ''top'' \<mapsto> utf16 ''registrar''],
      transfers = []\<rparr>"

definition alice_call :: invocation where
  "alice_call = \<lparr>caller = Address (utf16 ''alice''), transferredCoins = 10000 * ONE_UNIT\<rparr>"

definition bob_call :: invocation where
  "bob_call = \<lparr>caller = Address (utf16 ''bob''), transferredCoins = 0\<rparr>"

section \<open>Facts about the pure functions\<close>

lemma lastIndexOf_ge: "- 1 \<le> lastIndexOf s u"
  by (induction s) (auto simp: Let_def)

lemma lastIndexOf_none: "lastIndexOf s u = - 1 \<longleftrightarrow> u \<notin> set s"
proof (induction s)
  case Nil
  show ?case by simp
next
  case (Cons x xs)
  have "- 1 \<le> lastIndexOf xs u" by (rule lastIndexOf_ge)
  with Cons show ?case by (auto simp: Let_def)
qed

lemma split_domain_no_dot: "46 \<notin> set d \<Longrightarrow> split_domain d = ([], d)"
  by (simp add: split_domain_def lastIndexOf_none)

lemma terminal_no_dot: "46 \<notin> set d \<Longrightarrow> terminal d \<and> label_of d = d"
  by (simp add: terminal_def label_of_def split_domain_no_dot)

lemma valid_from_iff:
  "valid_from s \<longleftrightarrow>
   (\<forall>u \<in> set s. (48 \<le> uint u \<and> uint u \<le> 57) \<or> (97 \<le> uint u \<and> uint u \<le> 122) \<or> uint u = 45)"
  by (induction s) (auto simp: Let_def)

lemma lower_units: "map word_of_int [97..122] = utf16 ''abcdefghijklmnopqrstuvwxyz''"
  by (simp add: utf16_def)

lemma digit_units: "map word_of_int [48..57] = utf16 ''0123456789''"
  by (simp add: utf16_def)

lemma alphabet_parts:
  "label_alphabet = utf16 ''abcdefghijklmnopqrstuvwxyz'' @ utf16 ''0123456789'' @ [45]"
  by (simp add: label_alphabet_def utf16_def)

lemma in_alphabet_iff:
  "u \<in> set label_alphabet \<longleftrightarrow>
   (48 \<le> uint u \<and> uint u \<le> 57) \<or> (97 \<le> uint u \<and> uint u \<le> 122) \<or> uint u = 45"
proof
  assume "u \<in> set label_alphabet"
  then show "(48 \<le> uint u \<and> uint u \<le> 57) \<or> (97 \<le> uint u \<and> uint u \<le> 122) \<or> uint u = 45"
    by (auto simp: label_alphabet_def utf16_def)
next
  assume r: "(48 \<le> uint u \<and> uint u \<le> 57) \<or> (97 \<le> uint u \<and> uint u \<le> 122) \<or> uint u = 45"
  have u: "word_of_int (uint u) = u" by simp
  from r consider "uint u \<in> set [48..57]" | "uint u \<in> set [97..122]" | "uint u = 45"
    by (auto simp only: set_upto atLeastAtMost_iff)
  then show "u \<in> set label_alphabet"
  proof cases
    case 1
    then have "word_of_int (uint u) \<in> set (map word_of_int [48..57] :: ustring)"
      by (simp only: set_map image_eqI)
    then show ?thesis by (simp only: u digit_units alphabet_parts set_append Un_iff simp_thms)
  next
    case 2
    then have "word_of_int (uint u) \<in> set (map word_of_int [97..122] :: ustring)"
      by (simp only: set_map image_eqI)
    then show ?thesis by (simp only: u lower_units alphabet_parts set_append Un_iff simp_thms)
  next
    case 3
    then have "word_of_int (uint u) = (45 :: 16 word)" by simp
    then show ?thesis by (simp add: u alphabet_parts)
  qed
qed

lemma cost_values:
  "10000 * ONE_UNIT = (10000000000000 :: 64 word)"
  "1000 * ONE_UNIT = (1000000000000 :: 64 word)"
  "100 * ONE_UNIT = (100000000000 :: 64 word)"
  "1 * ONE_UNIT = (1000000000 :: 64 word)"
  by (simp_all add: ONE_UNIT_def)

section \<open>Running the operations\<close>

text \<open>
  What each operation returns on well-formed arguments, by the cases of its code.
\<close>

lemma utf16_Nil_iff: "utf16 s = [] \<longleftrightarrow> s = []"
  by (simp add: utf16_def)

lemma unwrap_ok: "unwrap (Result v None) = Inr v"
  by (simp add: unwrap_def isOk_def)

lemma read_first: "unwrap (fst (nextString (Str d # rest))) = Inr d"
  by (simp add: unwrap_ok)

lemma read_second: "unwrap (fst (nextString (snd (nextString (Str d # Str a # rest))))) = Inr a"
  by (simp add: unwrap_ok)

lemma amount_add_zero: "unwrap (amount_add (Amount 0) c) = Inr c"
proof -
  have "unat (amount c) < 2 ^ 64"
    using unsigned_less [of "amount c"] by simp
  then show ?thesis by (simp add: amount_add_def unwrap_ok)
qed

lemma serialize_ok: "serializeResult add (Result v None) = [U8 0, add v]"
  by (simp add: serializeResult_def isOk_def)

lemma serialize_err: "m \<noteq> [] \<Longrightarrow> serializeResult add (Result v (Some m)) = [U8 1, Str m]"
  by (simp add: serializeResult_def isOk_def)

lemma Storage_get_present: "storage s key = Some v \<Longrightarrow> Storage_get host s key = Inr v"
  by (simp add: Storage_get_def)

lemma Storage_get_aborts: "storage s key = None \<Longrightarrow> Storage_get Aborts s key = Inl NotFound"
  by (simp add: Storage_get_def)

lemma Storage_get_returns: "storage s key = None \<Longrightarrow> Storage_get (Returns e) s key = Inr e"
  by (simp add: Storage_get_def)

lemmas lookups = Storage_get_present Storage_get_aborts Storage_get_returns

lemmas run_simps = unwrap_ok read_first read_second amount_add_zero serialize_ok serialize_err
  utf16_Nil_iff Storage_set_def transferCoins_def terminal_def label_of_def Let_def

lemma dns_free_v1_terminal:
  "terminal d \<Longrightarrow> dns_free_v1 host call ctx s [Str d] =
     (case Storage_get host s (label_of d) of Inl e \<Rightarrow> Inl e
      | Inr owner \<Rightarrow>
          if owner \<noteq> toString (caller ctx)
          then Inr ([U8 1, Str (utf16 ''Only the owner of the domain can free it.'')], s)
          else (case Storage_del s (label_of d) of Inl e \<Rightarrow> Inl e
                | Inr s1 \<Rightarrow>
                    Inr ([U8 0, Buf []],
                         s1\<lparr>transfers := transfers s1 @
                              [(caller ctx, amount (compute_cost (label_of d)) div 2)]\<rparr>)))"
  by (simp add: dns_free_v1_def run_simps split: sum.splits)

lemma dns_free_v2_terminal:
  "terminal d \<Longrightarrow> dns_free_v2 host call ctx s [Str d] =
     (case Storage_get host s (label_of d) of Inl e \<Rightarrow> Inl e
      | Inr owner \<Rightarrow>
          if owner \<noteq> toString (caller ctx)
          then Inr (Result [] (Some (utf16 ''Only the owner of the domain can free it.'')), s)
          else (case Storage_del s (label_of d) of Inl e \<Rightarrow> Inl e
                | Inr s1 \<Rightarrow>
                    Inr (Result [] None,
                         s1\<lparr>transfers := transfers s1 @
                              [(caller ctx, amount (compute_cost (label_of d)) div 2)]\<rparr>)))"
  by (simp add: dns_free_v2_def run_simps split: sum.splits)

lemma Storage_del_present:
  "storage s key = Some v \<Longrightarrow>
   Storage_del s key = Inr (s\<lparr>storage := (storage s)(key := None)\<rparr>)"
  by (simp add: Storage_del_def)



lemma dns_alloc_v1_terminal:
  "terminal d \<Longrightarrow> dns_alloc_v1 host call ctx s [Str d, Str a] =
     (if transferredCoins ctx < amount (compute_cost (label_of d))
      then Inr ([U8 1, Str (utf16 ''Not enough coins to pay for the domain name.'')], s)
      else Inr ([U8 0, Buf []], s\<lparr>storage := (storage s)(label_of d \<mapsto> a)\<rparr>))"
  by (simp add: dns_alloc_v1_def run_simps)

lemma dns_alloc_v2_terminal:
  "terminal d \<Longrightarrow> dns_alloc_v2 host call ctx s [Str d, Str a] =
     (if transferredCoins ctx < amount (compute_cost (label_of d))
      then Inr (Result [] (Some (utf16 ''Not enough coins to pay for the domain name.'')), s)
      else Inr (Result [] None, s\<lparr>storage := (storage s)(label_of d \<mapsto> a)\<rparr>))"
  by (simp add: dns_alloc_v2_def run_simps)

lemma dns_resolve_v1_run:
  "dns_resolve_v1 host call ctx s [Str d] =
     (case Storage_get host s (label_of d) of Inl e \<Rightarrow> Inl e
      | Inr owner \<Rightarrow>
          if terminal d then Inr ([U8 0, Str owner], s)
          else call (Address owner) ''dns_resolve'' [Str (fst (split_domain d))]
                 (transferredCoins ctx) s)"
  by (simp add: dns_resolve_v1_def run_simps split: sum.splits)

lemma dns_resolve_v2_run:
  "dns_resolve_v2 host ctx s [Str d] =
     (case Storage_get host s (label_of d) of Inl e \<Rightarrow> Inl e
      | Inr owner \<Rightarrow>
          if terminal d then Inr (Result (Address owner) None, s)
          else Inr (Result (Address owner) (Some (utf16 ''Not implemented yet.'')), s))"
  by (simp add: dns_resolve_v2_def run_simps split: sum.splits)

lemma dns_alloc_cost_v1_run:
  "dns_alloc_cost_v1 host call ctx s [Str d, Str a] =
     (if terminal d then
        (if is_valid_domain (label_of d) then Inr ([U8 0, Amt (compute_cost (label_of d))], s)
         else Inr ([U8 1, Str (utf16 ''Invalid domain name.'')], s))
      else
        (case Storage_get host s (label_of d) of Inl e \<Rightarrow> Inl e
         | Inr owner \<Rightarrow>
             call (Address owner) ''dns_alloc_cost'' [Str (fst (split_domain d))]
               (transferredCoins ctx) s))"
  by (simp add: dns_alloc_cost_v1_def run_simps split: sum.splits)

lemma dns_alloc_cost_v2_run:
  "dns_alloc_cost_v2 host ctx s [Str d, Str a] =
     (case (if terminal d then Inr [] else Storage_get host s (label_of d)) of
        Inl e \<Rightarrow> Inl e
      | Inr unused \<Rightarrow>
          if is_valid_domain (label_of d) then Inr (Result (compute_cost (label_of d)) None, s)
          else Inr (Result (Amount 0) (Some (utf16 ''Invalid domain name.'')), s))"
  by (simp add: dns_alloc_cost_v2_def run_simps split: sum.splits)

section \<open>The example names and registries\<close>

lemma terminal_ab: "terminal (utf16 ''ab'') \<and> label_of (utf16 ''ab'') = utf16 ''ab''"
  by (rule terminal_no_dot) (simp add: utf16_def)

lemma split_sub_top: "split_domain (utf16 ''sub.top'') = (utf16 ''sub'', utf16 ''top'')"
  by (simp add: split_domain_def slice_def i32_MAX_def utf16_def)

lemma delegated_sub_top:
  "\<not> terminal (utf16 ''sub.top'') \<and> label_of (utf16 ''sub.top'') = utf16 ''top''"
  by (simp add: terminal_def label_of_def split_sub_top utf16_Nil_iff)

lemma bob_storage:
  "storage bob_registry (utf16 ''ab'') = Some (utf16 ''bob'')"
  "storage bob_registry (utf16 ''top'') = Some (utf16 ''registrar'')"
  "storage empty_registry k = None"
  by (simp_all add: bob_registry_def empty_registry_def utf16_def)

lemma terminal_a: "terminal (utf16 ''a'') \<and> label_of (utf16 ''a'') = utf16 ''a''"
  by (rule terminal_no_dot) (simp add: utf16_def)

section \<open>Owner gating (C1)\<close>



section \<open>Allocation then resolution (C2)\<close>

text \<open>
  C2: for every terminal name and owner address \<open>A\<close>, if \<open>dns_alloc\<close> succeeds
  (a reply with tag 0 in the first listing, an ok result in the second) then
  \<open>dns_resolve\<close> of the same name in the state it left returns \<open>A\<close>, whoever calls.
  The state before the allocation is arbitrary, so a record of another owner is
  overwritten: the stored owner afterwards is \<open>A\<close>.
\<close>

theorem alloc_resolve_roundtrip:
  "terminal d \<Longrightarrow>
   (dns_alloc_v1 host call ctx s [Str d, Str A] = Inr (reply, s1) \<and> reply_ok reply \<longrightarrow>
      dns_resolve_v1 host call' ctx' s1 [Str d] = Inr ([U8 0, Str A], s1) \<and>
      storage s1 (label_of d) = Some A) \<and>
   (dns_alloc_v2 host call ctx s [Str d, Str A] = Inr (r, s2) \<and> isOk r \<longrightarrow>
      dns_resolve_v2 host ctx' s2 [Str d] = Inr (Result (Address A) None, s2) \<and>
      storage s2 (label_of d) = Some A)"
  by (auto simp: lookups dns_alloc_v1_terminal dns_alloc_v2_terminal dns_resolve_v1_run
      dns_resolve_v2_run isOk_def utf16_Nil_iff split: if_splits)

text \<open>C2 at the label \<open>ab\<close>, owned by bob, allocated by alice at the full price.\<close>

theorem alloc_resolve_roundtrip_witness:
  "terminal (utf16 ''ab'') \<and>
   storage bob_registry (label_of (utf16 ''ab'')) = Some (utf16 ''bob'') \<and>
   dns_alloc_v1 Aborts unreachable_registry alice_call bob_registry
     [Str (utf16 ''ab''), Str (utf16 ''alice'')] =
     Inr ([U8 0, Buf []], Storage_set bob_registry (utf16 ''ab'') (utf16 ''alice'')) \<and>
   reply_ok [U8 0, Buf []] \<and>
   dns_resolve_v1 Aborts unreachable_registry bob_call
     (Storage_set bob_registry (utf16 ''ab'') (utf16 ''alice'')) [Str (utf16 ''ab'')] =
     Inr ([U8 0, Str (utf16 ''alice'')], Storage_set bob_registry (utf16 ''ab'') (utf16 ''alice'')) \<and>
   dns_alloc_v2 Aborts unreachable_registry alice_call bob_registry
     [Str (utf16 ''ab''), Str (utf16 ''alice'')] =
     Inr (Result [] None, Storage_set bob_registry (utf16 ''ab'') (utf16 ''alice'')) \<and>
   isOk (Result ([] :: buffer) None) \<and>
   dns_resolve_v2 Aborts bob_call
     (Storage_set bob_registry (utf16 ''ab'') (utf16 ''alice'')) [Str (utf16 ''ab'')] =
     Inr (Result (Address (utf16 ''alice'')) None,
          Storage_set bob_registry (utf16 ''ab'') (utf16 ''alice''))"
proof -
  have t: "terminal (utf16 ''ab'')" by (simp add: terminal_ab)
  have a1: "dns_alloc_v1 Aborts unreachable_registry alice_call bob_registry
     [Str (utf16 ''ab''), Str (utf16 ''alice'')] =
     Inr ([U8 0, Buf []], Storage_set bob_registry (utf16 ''ab'') (utf16 ''alice''))"
    by (simp add: dns_alloc_v1_terminal terminal_ab alice_call_def compute_cost_def
        Storage_set_def) (simp add: utf16_def)
  have a2: "dns_alloc_v2 Aborts unreachable_registry alice_call bob_registry
     [Str (utf16 ''ab''), Str (utf16 ''alice'')] =
     Inr (Result [] None, Storage_set bob_registry (utf16 ''ab'') (utf16 ''alice''))"
    by (simp add: dns_alloc_v2_terminal terminal_ab alice_call_def compute_cost_def
        Storage_set_def) (simp add: utf16_def)
  have k1: "reply_ok [U8 0, Buf []]" by simp
  have k2: "isOk (Result ([] :: buffer) None)" by (simp add: isOk_def)
  from alloc_resolve_roundtrip [OF t, where call = unreachable_registry and ctx = alice_call
      and s = bob_registry and A = "utf16 ''alice''" and reply = "[U8 0, Buf []]"
      and ?s1.0 = "Storage_set bob_registry (utf16 ''ab'') (utf16 ''alice'')"
      and call' = unreachable_registry and ctx' = bob_call
      and r = "Result [] None"
      and ?s2.0 = "Storage_set bob_registry (utf16 ''ab'') (utf16 ''alice'')"]
    t a1 a2 k1 k2
  show ?thesis by (simp add: terminal_ab bob_storage)
qed

section \<open>The payment check of allocation (C3)\<close>

text \<open>
  C3: for every terminal name, a payment strictly below the cost of the label makes
  \<open>dns_alloc\<close> answer with the failure "Not enough coins to pay for the domain name."
  and return the state unchanged; a payment equal to the cost or above it makes it
  succeed, with the record written.
\<close>

theorem alloc_payment_check:
  "terminal d \<Longrightarrow>
   (transferredCoins ctx < amount (compute_cost (label_of d)) \<longrightarrow>
      dns_alloc_v1 host call ctx s [Str d, Str a] =
        Inr ([U8 1, Str (utf16 ''Not enough coins to pay for the domain name.'')], s) \<and>
      dns_alloc_v2 host call ctx s [Str d, Str a] =
        Inr (Result [] (Some (utf16 ''Not enough coins to pay for the domain name.'')), s)) \<and>
   (amount (compute_cost (label_of d)) \<le> transferredCoins ctx \<longrightarrow>
      dns_alloc_v1 host call ctx s [Str d, Str a] =
        Inr ([U8 0, Buf []], s\<lparr>storage := (storage s)(label_of d \<mapsto> a)\<rparr>) \<and>
      dns_alloc_v2 host call ctx s [Str d, Str a] =
        Inr (Result [] None, s\<lparr>storage := (storage s)(label_of d \<mapsto> a)\<rparr>))"
  by (simp add: dns_alloc_v1_terminal dns_alloc_v2_terminal not_less [symmetric])

text \<open>C3 at the label \<open>ab\<close>: bob pays nothing, alice pays the full price.\<close>

theorem alloc_payment_check_witness:
  "terminal (utf16 ''ab'') \<and>
   transferredCoins bob_call < amount (compute_cost (label_of (utf16 ''ab''))) \<and>
   dns_alloc_v1 Aborts unreachable_registry bob_call empty_registry
     [Str (utf16 ''ab''), Str (utf16 ''bob'')] =
     Inr ([U8 1, Str (utf16 ''Not enough coins to pay for the domain name.'')], empty_registry) \<and>
   amount (compute_cost (label_of (utf16 ''ab''))) \<le> transferredCoins alice_call \<and>
   dns_alloc_v2 Aborts unreachable_registry alice_call empty_registry
     [Str (utf16 ''ab''), Str (utf16 ''alice'')] =
     Inr (Result [] None,
          empty_registry\<lparr>storage := (storage empty_registry)(utf16 ''ab'' \<mapsto> utf16 ''alice'')\<rparr>)"
proof -
  have t: "terminal (utf16 ''ab'')" by (simp add: terminal_ab)
  have c: "amount (compute_cost (utf16 ''ab'')) = 10000 * ONE_UNIT"
    by (simp add: compute_cost_def utf16_def)
  have lo: "transferredCoins bob_call < amount (compute_cost (label_of (utf16 ''ab'')))"
    by (simp add: terminal_ab c bob_call_def ONE_UNIT_def)
  have hi: "amount (compute_cost (label_of (utf16 ''ab''))) \<le> transferredCoins alice_call"
    by (simp add: terminal_ab c alice_call_def)
  from alloc_payment_check [OF t, where ctx = bob_call and call = unreachable_registry
      and s = empty_registry and a = "utf16 ''bob''"]
    alloc_payment_check [OF t, where ctx = alice_call and call = unreachable_registry
      and s = empty_registry and a = "utf16 ''alice''"]
    t lo hi
  show ?thesis by (simp add: terminal_ab)
qed

section \<open>The refund of a release (C4)\<close>

text \<open>
  C4: for every terminal name whose stored owner is the caller, \<open>dns_free\<close> succeeds,
  the record is deleted and one transfer to the caller follows, of the cost of the label
  divided by two in \<open>u64\<close> arithmetic, which is half the cost rounded towards zero.
  For \<open>ab\<close> the cost is 10,000 units and the refund 5,000 units.
\<close>

theorem free_refund:
  "terminal d \<Longrightarrow> storage s (label_of d) = Some (toString (caller ctx)) \<Longrightarrow>
   dns_free_v1 host call ctx s [Str d] =
     Inr ([U8 0, Buf []],
          s\<lparr>storage := (storage s)(label_of d := None),
            transfers := transfers s @
              [(caller ctx, amount (compute_cost (label_of d)) div 2)]\<rparr>) \<and>
   dns_free_v2 host call ctx s [Str d] =
     Inr (Result [] None,
          s\<lparr>storage := (storage s)(label_of d := None),
            transfers := transfers s @
              [(caller ctx, amount (compute_cost (label_of d)) div 2)]\<rparr>) \<and>
   unat (amount (compute_cost (label_of d)) div 2) =
     unat (amount (compute_cost (label_of d))) div 2 \<and>
   amount (compute_cost (utf16 ''ab'')) = 10000 * ONE_UNIT \<and>
   amount (compute_cost (utf16 ''ab'')) div 2 = 5000 * ONE_UNIT"
proof -
  assume t: "terminal d" and o: "storage s (label_of d) = Some (toString (caller ctx))"
  have c: "amount (compute_cost (utf16 ''ab'')) = 10000 * ONE_UNIT"
    by (simp add: compute_cost_def utf16_def)
  have h: "(10000 * ONE_UNIT) div 2 = 5000 * ONE_UNIT"
    by (simp add: ONE_UNIT_def)
  show ?thesis
    using o by (simp add: dns_free_v1_terminal [OF t] dns_free_v2_terminal [OF t]
        Storage_get_present Storage_del_present unat_div c h)
qed

text \<open>C4 when bob releases his label \<open>ab\<close>.\<close>

theorem free_refund_witness:
  "terminal (utf16 ''ab'') \<and>
   storage bob_registry (label_of (utf16 ''ab'')) = Some (toString (caller bob_call)) \<and>
   dns_free_v1 Aborts unreachable_registry bob_call bob_registry [Str (utf16 ''ab'')] =
     Inr ([U8 0, Buf []],
          bob_registry\<lparr>storage := (storage bob_registry)(utf16 ''ab'' := None),
            transfers := [(Address (utf16 ''bob''), 5000 * ONE_UNIT)]\<rparr>)"
proof -
  have t: "terminal (utf16 ''ab'')" by (simp add: terminal_ab)
  have o: "storage bob_registry (label_of (utf16 ''ab'')) = Some (toString (caller bob_call))"
    by (simp add: terminal_ab bob_storage bob_call_def)
  have tr: "transfers bob_registry = []" "caller bob_call = Address (utf16 ''bob'')"
    by (simp_all add: bob_registry_def bob_call_def)
  from free_refund [OF t o, where call = unreachable_registry] t o
  show ?thesis by (simp add: terminal_ab tr ONE_UNIT_def)
qed

section \<open>The cost tiers (C5)\<close>

text \<open>
  C5: the cost of a label is 10,000 units when its length is 2, 1,000 units when it is 3,
  100 units when it is between 4 and 10, and 1 unit when it is 11 or more, where one unit
  is \<open>ONE_UNIT\<close> = 1,000,000,000. The costs are read as numbers (\<open>unat\<close>), so the
  equations also say that no product wraps around in \<open>u64\<close>.
\<close>

theorem compute_cost_tiers:
  "(length label = 2 \<longrightarrow> unat (amount (compute_cost label)) = 10000 * unat ONE_UNIT) \<and>
   (length label = 3 \<longrightarrow> unat (amount (compute_cost label)) = 1000 * unat ONE_UNIT) \<and>
   (4 \<le> length label \<and> length label \<le> 10 \<longrightarrow>
      unat (amount (compute_cost label)) = 100 * unat ONE_UNIT) \<and>
   (11 \<le> length label \<longrightarrow> unat (amount (compute_cost label)) = 1 * unat ONE_UNIT) \<and>
   unat ONE_UNIT = 1000000000"
  by (simp add: compute_cost_def ONE_UNIT_def)

text \<open>C5 at one label of each tier.\<close>

theorem compute_cost_tiers_witness:
  "length (utf16 ''ab'') = 2 \<and>
   unat (amount (compute_cost (utf16 ''ab''))) = 10000 * unat ONE_UNIT \<and>
   length (utf16 ''abc'') = 3 \<and>
   unat (amount (compute_cost (utf16 ''abc''))) = 1000 * unat ONE_UNIT \<and>
   4 \<le> length (utf16 ''massa'') \<and> length (utf16 ''massa'') \<le> 10 \<and>
   unat (amount (compute_cost (utf16 ''massa''))) = 100 * unat ONE_UNIT \<and>
   11 \<le> length (utf16 ''massa-registry'') \<and>
   unat (amount (compute_cost (utf16 ''massa-registry''))) = 1 * unat ONE_UNIT"
proof -
  have l: "length (utf16 ''ab'') = 2" "length (utf16 ''abc'') = 3"
    "4 \<le> length (utf16 ''massa'') \<and> length (utf16 ''massa'') \<le> 10"
    "11 \<le> length (utf16 ''massa-registry'')"
    by (simp_all add: utf16_def)
  from compute_cost_tiers [of "utf16 ''ab''"] compute_cost_tiers [of "utf16 ''abc''"]
    compute_cost_tiers [of "utf16 ''massa''"] compute_cost_tiers [of "utf16 ''massa-registry''"] l
  show ?thesis by simp
qed

section \<open>Resolution (C6)\<close>

text \<open>
  C6, as stated, at the delegated name \<open>sub.top\<close> with \<open>top\<close> registered to
  \<open>registrar\<close>: the claim has \<open>dns_resolve\<close> forward the request and return the
  sub-registry's answer. The second listing issues no call there and answers with the
  failure "Not implemented yet.", on either host.
\<close>

theorem resolve_delegated_counterexample:
  "\<not> terminal (utf16 ''sub.top'') \<and>
   storage bob_registry (label_of (utf16 ''sub.top'')) = Some (utf16 ''registrar'') \<and>
   dns_resolve_v2 Aborts alice_call bob_registry [Str (utf16 ''sub.top'')] =
     Inr (Result (Address (utf16 ''registrar'')) (Some (utf16 ''Not implemented yet.'')),
          bob_registry) \<and>
   dns_resolve_v2 (Returns []) alice_call bob_registry [Str (utf16 ''sub.top'')] =
     Inr (Result (Address (utf16 ''registrar'')) (Some (utf16 ''Not implemented yet.'')),
          bob_registry) \<and>
   \<not> isOk (Result (Address (utf16 ''registrar'')) (Some (utf16 ''Not implemented yet.'')))"
  by (simp add: dns_resolve_v2_run delegated_sub_top bob_storage lookups isOk_def utf16_Nil_iff)

text \<open>
  C6, amended: on a terminal name \<open>dns_resolve\<close> returns the stored owner of the
  label. On a delegated name whose top-level label is registered to \<open>R\<close>, the first
  listing forwards a \<open>dns_resolve\<close> request for the remainder to \<open>R\<close>, with the
  coins of the call, and returns what the call returns; the second listing answers with
  the failure "Not implemented yet." and forwards nothing. All this on every host. When
  the label (of a terminal name, or the top-level one of a delegated name) has no record,
  both listings fail with \<open>NotFound\<close>, the failure of the lookup on the host of
  sections 4.3, 7 and 8, whatever the callee is, so before any delegation.
\<close>

theorem resolve_behaviour:
  "(terminal d \<and> storage s (label_of d) = Some owner \<longrightarrow>
      dns_resolve_v1 host call ctx s [Str d] = Inr ([U8 0, Str owner], s) \<and>
      dns_resolve_v2 host ctx s [Str d] = Inr (Result (Address owner) None, s)) \<and>
   (\<not> terminal d \<and> storage s (label_of d) = Some R \<longrightarrow>
      dns_resolve_v1 host call ctx s [Str d] =
        call (Address R) ''dns_resolve'' [Str (fst (split_domain d))] (transferredCoins ctx) s \<and>
      dns_resolve_v2 host ctx s [Str d] =
        Inr (Result (Address R) (Some (utf16 ''Not implemented yet.'')), s)) \<and>
   (storage s (label_of d) = None \<longrightarrow>
      dns_resolve_v1 Aborts call ctx s [Str d] = Inl NotFound \<and>
      dns_resolve_v2 Aborts ctx s [Str d] = Inl NotFound)"
  by (simp add: dns_resolve_v1_run dns_resolve_v2_run lookups)

text \<open>
  The amended C6 at the terminal name \<open>ab\<close> and at the delegated name \<open>sub.top\<close>,
  with the sub-registry that answers \<open>sub\<close>, and in the empty registry.
\<close>

theorem resolve_behaviour_witness:
  "terminal (utf16 ''ab'') \<and>
   storage bob_registry (label_of (utf16 ''ab'')) = Some (utf16 ''bob'') \<and>
   dns_resolve_v1 Aborts sub_registry alice_call bob_registry [Str (utf16 ''ab'')] =
     Inr ([U8 0, Str (utf16 ''bob'')], bob_registry) \<and>
   dns_resolve_v2 Aborts alice_call bob_registry [Str (utf16 ''ab'')] =
     Inr (Result (Address (utf16 ''bob'')) None, bob_registry) \<and>
   \<not> terminal (utf16 ''sub.top'') \<and>
   storage bob_registry (label_of (utf16 ''sub.top'')) = Some (utf16 ''registrar'') \<and>
   dns_resolve_v1 Aborts sub_registry alice_call bob_registry [Str (utf16 ''sub.top'')] =
     sub_registry (Address (utf16 ''registrar'')) ''dns_resolve'' [Str (utf16 ''sub'')]
       (transferredCoins alice_call) bob_registry \<and>
   dns_resolve_v1 Aborts sub_registry alice_call bob_registry [Str (utf16 ''sub.top'')] =
     Inr ([U8 0, Str (utf16 ''sub'')], bob_registry) \<and>
   storage empty_registry (label_of (utf16 ''sub.top'')) = None \<and>
   dns_resolve_v1 Aborts sub_registry alice_call empty_registry [Str (utf16 ''sub.top'')] =
     Inl NotFound \<and>
   dns_resolve_v2 Aborts alice_call empty_registry [Str (utf16 ''sub.top'')] = Inl NotFound"
proof -
  have t: "terminal (utf16 ''ab'') \<and>
      storage bob_registry (label_of (utf16 ''ab'')) = Some (utf16 ''bob'')"
    by (simp add: terminal_ab bob_storage)
  have n: "\<not> terminal (utf16 ''sub.top'') \<and>
      storage bob_registry (label_of (utf16 ''sub.top'')) = Some (utf16 ''registrar'')"
    by (simp add: delegated_sub_top bob_storage)
  have m: "storage empty_registry (label_of (utf16 ''sub.top'')) = None"
    by (simp add: bob_storage)
  have r: "fst (split_domain (utf16 ''sub.top'')) = utf16 ''sub''"
    by (simp add: split_sub_top)
  from resolve_behaviour [where d = "utf16 ''ab''" and s = bob_registry and host = Aborts
      and owner = "utf16 ''bob''" and call = sub_registry and ctx = alice_call]
    resolve_behaviour [where d = "utf16 ''sub.top''" and s = bob_registry and host = Aborts
      and R = "utf16 ''registrar''" and call = sub_registry and ctx = alice_call]
    resolve_behaviour [where d = "utf16 ''sub.top''" and s = empty_registry
      and call = sub_registry and ctx = alice_call]
    t n m
  show ?thesis by (simp add: r sub_registry_def)
qed

section \<open>Quoting (C7)\<close>

text \<open>
  C7, as stated, at the delegated name \<open>sub.top\<close> with \<open>top\<close> registered to
  \<open>registrar\<close>: the claim has \<open>dns_alloc_cost\<close> issue no call and quote the local
  label \<open>top\<close>. The first listing forwards the request to \<open>registrar\<close> and returns
  the callee's buffer, not the local quote, on either host.
\<close>

theorem alloc_cost_delegated_counterexample:
  "\<not> terminal (utf16 ''sub.top'') \<and>
   storage bob_registry (label_of (utf16 ''sub.top'')) = Some (utf16 ''registrar'') \<and>
   dns_alloc_cost_v1 Aborts sub_registry alice_call bob_registry
     [Str (utf16 ''sub.top''), Str (utf16 ''alice'')] =
     sub_registry (Address (utf16 ''registrar'')) ''dns_alloc_cost'' [Str (utf16 ''sub'')]
       (transferredCoins alice_call) bob_registry \<and>
   dns_alloc_cost_v1 (Returns []) sub_registry alice_call bob_registry
     [Str (utf16 ''sub.top''), Str (utf16 ''alice'')] =
     sub_registry (Address (utf16 ''registrar'')) ''dns_alloc_cost'' [Str (utf16 ''sub'')]
       (transferredCoins alice_call) bob_registry \<and>
   dns_alloc_cost_v1 Aborts sub_registry alice_call bob_registry
     [Str (utf16 ''sub.top''), Str (utf16 ''alice'')] \<noteq>
     Inr ([U8 0, Amt (compute_cost (utf16 ''top''))], bob_registry) \<and>
   dns_alloc_cost_v1 (Returns []) sub_registry alice_call bob_registry
     [Str (utf16 ''sub.top''), Str (utf16 ''alice'')] \<noteq>
     Inr ([U8 0, Amt (compute_cost (utf16 ''top''))], bob_registry)"
  by (simp add: dns_alloc_cost_v1_run delegated_sub_top bob_storage lookups
      split_sub_top sub_registry_def)

text \<open>
  C7, amended: in the second listing \<open>dns_alloc_cost\<close> issues no call, and wherever
  its lookup of the top-level record returns (the name is terminal and nothing is looked
  up, or the label has a record, or the host's lookup of a missing key returns a value,
  as sections 4.4 and 9 of the specification have it) it answers from the local label
  alone, whatever the remainder: the cost of that label when it is valid, the failure
  "Invalid domain name." with the cost zero beside it when it is not. In the first listing
  a terminal name gets the same answer serialised (tag 0 and the cost, or tag 1 and the
  message), and a delegated name whose top-level label is registered to \<open>R\<close> is
  forwarded to \<open>R\<close> and the callee's buffer returned.
\<close>

theorem alloc_cost_behaviour:
  "(terminal d \<or> storage s (label_of d) \<noteq> None \<or> host \<noteq> Aborts \<longrightarrow>
      dns_alloc_cost_v2 host ctx s [Str d, Str a] =
        (if is_valid_domain (label_of d) then Inr (Result (compute_cost (label_of d)) None, s)
         else Inr (Result (Amount 0) (Some (utf16 ''Invalid domain name.'')), s))) \<and>
   (terminal d \<longrightarrow>
      dns_alloc_cost_v1 host call ctx s [Str d, Str a] =
        (if is_valid_domain (label_of d) then Inr ([U8 0, Amt (compute_cost (label_of d))], s)
         else Inr ([U8 1, Str (utf16 ''Invalid domain name.'')], s))) \<and>
   (\<not> terminal d \<and> storage s (label_of d) = Some R \<longrightarrow>
      dns_alloc_cost_v1 host call ctx s [Str d, Str a] =
        call (Address R) ''dns_alloc_cost'' [Str (fst (split_domain d))]
          (transferredCoins ctx) s)"
proof -
  have q: "dns_alloc_cost_v2 host ctx s [Str d, Str a] =
        (if is_valid_domain (label_of d) then Inr (Result (compute_cost (label_of d)) None, s)
         else Inr (Result (Amount 0) (Some (utf16 ''Invalid domain name.'')), s))"
    if r: "terminal d \<or> storage s (label_of d) \<noteq> None \<or> host \<noteq> Aborts"
  proof -
    have "terminal d \<or> (\<exists>x. Storage_get host s (label_of d) = Inr x)"
      using r by (cases host; cases "storage s (label_of d)") (auto simp: Storage_get_def)
    then show ?thesis by (auto simp: dns_alloc_cost_v2_run)
  qed
  show ?thesis
    using q by (simp add: dns_alloc_cost_v1_run lookups)
qed

text \<open>
  The amended C7 at \<open>sub.top\<close> in the registry that holds \<open>top\<close>, at \<open>sub.top\<close> in
  the empty registry on a host whose lookup returns, and at the invalid terminal name
  \<open>a\<close>.
\<close>

theorem alloc_cost_behaviour_witness:
  "\<not> terminal (utf16 ''sub.top'') \<and>
   storage bob_registry (label_of (utf16 ''sub.top'')) = Some (utf16 ''registrar'') \<and>
   is_valid_domain (label_of (utf16 ''sub.top'')) \<and>
   dns_alloc_cost_v2 Aborts alice_call bob_registry
     [Str (utf16 ''sub.top''), Str (utf16 ''alice'')] =
     Inr (Result (Amount (1000 * ONE_UNIT)) None, bob_registry) \<and>
   dns_alloc_cost_v1 Aborts sub_registry alice_call bob_registry
     [Str (utf16 ''sub.top''), Str (utf16 ''alice'')] =
     Inr ([U8 0, Str (utf16 ''sub'')], bob_registry) \<and>
   storage empty_registry (label_of (utf16 ''sub.top'')) = None \<and>
   Returns [] \<noteq> Aborts \<and>
   dns_alloc_cost_v2 (Returns []) alice_call empty_registry
     [Str (utf16 ''sub.top''), Str (utf16 ''alice'')] =
     Inr (Result (Amount (1000 * ONE_UNIT)) None, empty_registry) \<and>
   terminal (utf16 ''a'') \<and> \<not> is_valid_domain (label_of (utf16 ''a'')) \<and>
   dns_alloc_cost_v2 Aborts alice_call bob_registry [Str (utf16 ''a''), Str (utf16 ''alice'')] =
     Inr (Result (Amount 0) (Some (utf16 ''Invalid domain name.'')), bob_registry) \<and>
   dns_alloc_cost_v1 Aborts sub_registry alice_call bob_registry
     [Str (utf16 ''a''), Str (utf16 ''alice'')] =
     Inr ([U8 1, Str (utf16 ''Invalid domain name.'')], bob_registry)"
proof -
  have n: "\<not> terminal (utf16 ''sub.top'')"
    "storage bob_registry (label_of (utf16 ''sub.top'')) = Some (utf16 ''registrar'')"
    "storage empty_registry (label_of (utf16 ''sub.top'')) = None"
    "fst (split_domain (utf16 ''sub.top'')) = utf16 ''sub''"
    by (simp_all add: delegated_sub_top bob_storage split_sub_top)
  have v: "is_valid_domain (label_of (utf16 ''sub.top''))"
    "compute_cost (label_of (utf16 ''sub.top'')) = Amount (1000 * ONE_UNIT)"
    by (simp_all add: delegated_sub_top) (simp_all add: is_valid_domain_def compute_cost_def utf16_def)
  have t: "terminal (utf16 ''a'')" "\<not> is_valid_domain (label_of (utf16 ''a''))"
    by (simp_all add: terminal_a) (simp add: is_valid_domain_def utf16_def)
  from alloc_cost_behaviour [where d = "utf16 ''sub.top''" and s = bob_registry
      and R = "utf16 ''registrar''" and call = sub_registry and ctx = alice_call
      and a = "utf16 ''alice''" and host = Aborts]
    alloc_cost_behaviour [where d = "utf16 ''sub.top''" and s = empty_registry
      and call = sub_registry and ctx = alice_call and a = "utf16 ''alice''"
      and host = "Returns []"]
    alloc_cost_behaviour [where d = "utf16 ''a''" and s = bob_registry
      and call = sub_registry and ctx = alice_call and a = "utf16 ''alice''" and host = Aborts]
    n v t
  show ?thesis by (simp add: sub_registry_def)
qed

section \<open>The validity predicate (C8)\<close>

text \<open>
  C8: \<open>is_valid_domain\<close> holds of a label exactly when its length is at least 2 and
  every code unit of it is one of \<open>a\<close> to \<open>z\<close>, \<open>0\<close> to \<open>9\<close> or the hyphen;
  \<open>ab\<close> is valid, and \<open>a\<close>, \<open>AB\<close> and \<open>a.b\<close> are not.
\<close>

theorem is_valid_domain_iff:
  "(is_valid_domain label \<longleftrightarrow>
      2 \<le> length label \<and> (\<forall>u \<in> set label. u \<in> set label_alphabet)) \<and>
   is_valid_domain (utf16 ''ab'') \<and> \<not> is_valid_domain (utf16 ''a'') \<and>
   \<not> is_valid_domain (utf16 ''AB'') \<and> \<not> is_valid_domain (utf16 ''a.b'')"
proof -
  have "is_valid_domain label \<longleftrightarrow>
      2 \<le> length label \<and> (\<forall>u \<in> set label. u \<in> set label_alphabet)"
    by (auto simp: is_valid_domain_def valid_from_iff in_alphabet_iff)
  moreover have "is_valid_domain (utf16 ''ab'')"
    by (simp add: is_valid_domain_def utf16_def)
  moreover have "\<not> is_valid_domain (utf16 ''a'')"
    by (simp add: is_valid_domain_def utf16_def)
  moreover have "\<not> is_valid_domain (utf16 ''AB'')"
    by (simp add: is_valid_domain_def utf16_def)
  moreover have "\<not> is_valid_domain (utf16 ''a.b'')"
    by (simp add: is_valid_domain_def utf16_def)
  ultimately show ?thesis by blast
qed

text \<open>C8 at the label \<open>a-9\<close>, which has a letter, a hyphen and a digit.\<close>

theorem is_valid_domain_iff_witness:
  "2 \<le> length (utf16 ''a-9'') \<and> set (utf16 ''a-9'') \<subseteq> set label_alphabet \<and>
   is_valid_domain (utf16 ''a-9'')"
proof -
  have l: "2 \<le> length (utf16 ''a-9'')" by (simp add: utf16_def)
  have m: "set (utf16 ''a-9'') \<subseteq> set label_alphabet"
    by (simp add: utf16_def label_alphabet_def)
  from is_valid_domain_iff [of "utf16 ''a-9''"] l m
  show ?thesis by blast
qed

section \<open>Monotonicity of the cost (C9)\<close>

text \<open>
  C9, as stated, at the labels \<open>a\<close> and \<open>ab\<close>, and at the empty label: the claim
  has a longer label never cost more than a shorter one. Lengths 0 and 1 fall into the
  last branch of \<open>compute_cost\<close> and cost 1 unit, less than the 10,000 units of the
  longer label \<open>ab\<close>.
\<close>

theorem cost_monotone_counterexample:
  "length (utf16 ''a'') < length (utf16 ''ab'') \<and>
   amount (compute_cost (utf16 ''a'')) < amount (compute_cost (utf16 ''ab'')) \<and>
   length ([] :: ustring) < length (utf16 ''ab'') \<and>
   amount (compute_cost []) < amount (compute_cost (utf16 ''ab''))"
  by (simp add: compute_cost_def ONE_UNIT_def utf16_def)

text \<open>
  C9, amended: the cost is defined for every label, of any length including zero, a
  label of length 0 or 1 costing 1 unit; and a longer label never costs more than a
  shorter one, except that a label of length 2 to 10 costs strictly more than any label
  of length 0 or 1.
\<close>

theorem cost_monotone:
  "(length a < 2 \<longrightarrow> unat (amount (compute_cost a)) = 1 * unat ONE_UNIT) \<and>
   (length a \<le> length b \<and> \<not> (length a < 2 \<and> 2 \<le> length b \<and> length b \<le> 10) \<longrightarrow>
      amount (compute_cost b) \<le> amount (compute_cost a)) \<and>
   (length a < 2 \<and> 2 \<le> length b \<and> length b \<le> 10 \<longrightarrow>
      amount (compute_cost a) < amount (compute_cost b))"
proof -
  consider "length a < 2" | "length a = 2" | "length a = 3"
    | "4 \<le> length a \<and> length a \<le> 10" | "11 \<le> length a"
    by linarith
  then show ?thesis
  proof cases
    case 1
    have s: "amount (compute_cost a) = 1 * ONE_UNIT"
      using 1 by (simp add: compute_cost_def)
    consider "length b < 2" | "length b = 2" | "length b = 3"
      | "4 \<le> length b \<and> length b \<le> 10" | "11 \<le> length b"
      by linarith
    then show ?thesis
      using 1 by cases (simp_all add: s, simp_all add: compute_cost_def ONE_UNIT_def)
  next
    case 2
    then show ?thesis by (simp add: compute_cost_def ONE_UNIT_def)
  next
    case 3
    then show ?thesis by (simp add: compute_cost_def ONE_UNIT_def)
  next
    case 4
    then show ?thesis by (simp add: compute_cost_def ONE_UNIT_def)
  next
    case 5
    then show ?thesis by (simp add: compute_cost_def ONE_UNIT_def)
  qed
qed

text \<open>
  The amended C9 at the labels \<open>a\<close>, \<open>ab\<close>, \<open>massa\<close> and \<open>massa-registry\<close>:
  a short label against a long one, two labels of length 2 and more, and a short label
  against one of length 2.
\<close>

theorem cost_monotone_witness:
  "length (utf16 ''a'') < 2 \<and>
   unat (amount (compute_cost (utf16 ''a''))) = 1 * unat ONE_UNIT \<and>
   length (utf16 ''a'') \<le> length (utf16 ''massa-registry'') \<and>
   \<not> (length (utf16 ''a'') < 2 \<and> 2 \<le> length (utf16 ''massa-registry'') \<and>
      length (utf16 ''massa-registry'') \<le> 10) \<and>
   amount (compute_cost (utf16 ''massa-registry'')) \<le> amount (compute_cost (utf16 ''a'')) \<and>
   length (utf16 ''ab'') \<le> length (utf16 ''massa'') \<and>
   \<not> (length (utf16 ''ab'') < 2 \<and> 2 \<le> length (utf16 ''massa'') \<and>
      length (utf16 ''massa'') \<le> 10) \<and>
   amount (compute_cost (utf16 ''massa'')) \<le> amount (compute_cost (utf16 ''ab'')) \<and>
   2 \<le> length (utf16 ''ab'') \<and> length (utf16 ''ab'') \<le> 10 \<and>
   amount (compute_cost (utf16 ''a'')) < amount (compute_cost (utf16 ''ab''))"
proof -
  have l: "length (utf16 ''a'') = 1" "length (utf16 ''ab'') = 2"
    "length (utf16 ''massa'') = 5" "length (utf16 ''massa-registry'') = 14"
    by (simp_all add: utf16_def)
  from cost_monotone [of "utf16 ''a''" "utf16 ''massa-registry''"]
    cost_monotone [of "utf16 ''ab''" "utf16 ''massa''"]
    cost_monotone [of "utf16 ''a''" "utf16 ''ab''"] l
  show ?thesis by simp
qed

section \<open>Allocation does not validate the label (C10)\<close>

text \<open>
  C10: for every terminal name whose label fails the validity predicate, \<open>dns_alloc\<close>
  succeeds and stores the record whenever the payment is at least the cost of the label;
  and on the terminal path the only failure \<open>dns_alloc\<close> reports is
  "Not enough coins to pay for the domain name.".
\<close>

theorem alloc_skips_validity:
  "(terminal d \<and> \<not> is_valid_domain (label_of d) \<and>
    amount (compute_cost (label_of d)) \<le> transferredCoins ctx \<longrightarrow>
      dns_alloc_v1 host call ctx s [Str d, Str a] =
        Inr ([U8 0, Buf []], s\<lparr>storage := (storage s)(label_of d \<mapsto> a)\<rparr>) \<and>
      dns_alloc_v2 host call ctx s [Str d, Str a] =
        Inr (Result [] None, s\<lparr>storage := (storage s)(label_of d \<mapsto> a)\<rparr>)) \<and>
   (terminal d \<longrightarrow>
      (dns_alloc_v1 host call ctx s [Str d, Str a] =
         Inr ([U8 0, Buf []], s\<lparr>storage := (storage s)(label_of d \<mapsto> a)\<rparr>) \<or>
       dns_alloc_v1 host call ctx s [Str d, Str a] =
         Inr ([U8 1, Str (utf16 ''Not enough coins to pay for the domain name.'')], s)) \<and>
      (dns_alloc_v2 host call ctx s [Str d, Str a] =
         Inr (Result [] None, s\<lparr>storage := (storage s)(label_of d \<mapsto> a)\<rparr>) \<or>
       dns_alloc_v2 host call ctx s [Str d, Str a] =
         Inr (Result [] (Some (utf16 ''Not enough coins to pay for the domain name.'')), s)))"
  by (simp add: dns_alloc_v1_terminal dns_alloc_v2_terminal not_less [symmetric])

text \<open>C10 at the one-character label \<open>a\<close> and at the empty label.\<close>

theorem alloc_skips_validity_witness:
  "terminal (utf16 ''a'') \<and> \<not> is_valid_domain (label_of (utf16 ''a'')) \<and>
   amount (compute_cost (label_of (utf16 ''a''))) \<le> transferredCoins alice_call \<and>
   dns_alloc_v1 Aborts unreachable_registry alice_call empty_registry
     [Str (utf16 ''a''), Str (utf16 ''alice'')] =
     Inr ([U8 0, Buf []],
          empty_registry\<lparr>storage := (storage empty_registry)(utf16 ''a'' \<mapsto> utf16 ''alice'')\<rparr>) \<and>
   terminal [] \<and> \<not> is_valid_domain (label_of []) \<and>
   amount (compute_cost (label_of [])) \<le> transferredCoins alice_call \<and>
   dns_alloc_v2 Aborts unreachable_registry alice_call empty_registry [Str [], Str (utf16 ''alice'')] =
     Inr (Result [] None,
          empty_registry\<lparr>storage := (storage empty_registry)([] \<mapsto> utf16 ''alice'')\<rparr>)"
proof -
  have t: "terminal (utf16 ''a'')" "label_of (utf16 ''a'') = utf16 ''a''"
    by (simp_all add: terminal_a)
  have u: "terminal []" "label_of [] = []"
    using terminal_no_dot [of "[]"] by simp_all
  have i: "\<not> is_valid_domain (utf16 ''a'')" "\<not> is_valid_domain []"
    by (simp_all add: is_valid_domain_def utf16_def)
  have p: "amount (compute_cost (utf16 ''a'')) \<le> transferredCoins alice_call"
    "amount (compute_cost []) \<le> transferredCoins alice_call"
    by (simp_all add: compute_cost_def alice_call_def ONE_UNIT_def utf16_def)
  from alloc_skips_validity [where d = "utf16 ''a''" and ctx = alice_call
      and call = unreachable_registry and s = empty_registry and a = "utf16 ''alice''"]
    alloc_skips_validity [where d = "[]" and ctx = alice_call
      and call = unreachable_registry and s = empty_registry and a = "utf16 ''alice''"]
    t u i p
  show ?thesis by simp
qed

end
